theory Spec2Isabelle
  imports Complex_Main
begin

section \<open>JavaScript values as the routes see them\<close>

text \<open>
  Both route modules work on values obtained from \<^verbatim>\<open>JSON.parse\<close> (the configuration
  file, the request body, the body of the remote answer), typed \<^verbatim>\<open>any\<close>. A parsed value
  is a \<open>json\<close>; an object is the list of its own properties in enumeration order, and
  \<open>undefined\<close> (a missing property) is \<open>None\<close> of \<open>json option\<close>.
  Numbers stand as rationals: only their equality and their test against zero are used.
  Non-finite numbers, which \<^verbatim>\<open>JSON.parse\<close> produces from an overflowing literal and
  \<^verbatim>\<open>JSON.stringify\<close> writes as null, are outside the model.
\<close>

datatype json =
    JNull
  | JBool bool
  | JNum rat
  | JStr string
  | JArr "json list"
  | JObj "(string \<times> json) list"

datatype exn = SyntaxError | TypeError | IOError

text \<open>
  Reading a property \<^verbatim>\<open>v.k\<close>, for the names the sources use (\<^verbatim>\<open>wordpress_sites\<close>,
  \<^verbatim>\<open>url\<close>, \<^verbatim>\<open>username\<close>, \<^verbatim>\<open>password\<close>, \<^verbatim>\<open>date\<close>, \<^verbatim>\<open>connected\<close>), none of which
  is inherited from a prototype: null throws a TypeError, a primitive or an array has no
  such property, an object is looked up.
\<close>

fun getprop :: "json \<Rightarrow> string \<Rightarrow> exn + json option" where
  "getprop JNull k = Inl TypeError"
| "getprop (JObj kvs) k = Inr (map_of kvs k)"
| "getprop v k = Inr None"

text \<open>Truthiness, as \<^verbatim>\<open>if (v)\<close>, \<^verbatim>\<open>!v\<close> and \<^verbatim>\<open>v || w\<close> test it.\<close>

fun truthy :: "json option \<Rightarrow> bool" where
  "truthy None = False"
| "truthy (Some JNull) = False"
| "truthy (Some (JBool b)) = b"
| "truthy (Some (JNum n)) = (n \<noteq> 0)"
| "truthy (Some (JStr s)) = (s \<noteq> [])"
| "truthy (Some (JArr xs)) = True"
| "truthy (Some (JObj kvs)) = True"

text \<open>
  Strict equality \<^verbatim>\<open>===\<close> between two values that come from two different parses
  (a stored record and the request body): primitives compare by value, two objects or
  arrays are never the same reference.
\<close>

fun strict_eq :: "json option \<Rightarrow> json option \<Rightarrow> bool" where
  "strict_eq None None = True"
| "strict_eq (Some JNull) (Some JNull) = True"
| "strict_eq (Some (JBool a)) (Some (JBool b)) = (a = b)"
| "strict_eq (Some (JNum a)) (Some (JNum b)) = (a = b)"
| "strict_eq (Some (JStr a)) (Some (JStr b)) = (a = b)"
| "strict_eq a b = False"

text \<open>
  Assignment \<^verbatim>\<open>obj.k = v\<close> on an object: an existing property keeps its place and takes
  the new value, a new property is added last.
\<close>

fun assign :: "(string \<times> json) list \<Rightarrow> string \<Rightarrow> json \<Rightarrow> (string \<times> json) list" where
  "assign [] k v = [(k, v)]"
| "assign ((k', v') # kvs) k v = (if k' = k then (k, v) # kvs else (k', v') # assign kvs k v)"

text \<open>
  \<^verbatim>\<open>Array.prototype.findIndex\<close> and \<^verbatim>\<open>Array.prototype.filter\<close> with a callback that may
  throw: the elements are visited from the left, and an exception of the callback ends
  the call. \<open>findIndex\<close> answers \<open>-1\<close> when no element satisfies the callback.
\<close>

fun findIndex :: "('a \<Rightarrow> exn + bool) \<Rightarrow> 'a list \<Rightarrow> exn + int" where
  "findIndex p [] = Inr (- 1)"
| "findIndex p (x # xs) =
     (case p x of
        Inl e \<Rightarrow> Inl e
      | Inr True \<Rightarrow> Inr 0
      | Inr False \<Rightarrow>
          (case findIndex p xs of
             Inl e \<Rightarrow> Inl e
           | Inr i \<Rightarrow> Inr (if i = - 1 then - 1 else i + 1)))"

fun filter_js :: "('a \<Rightarrow> exn + bool) \<Rightarrow> 'a list \<Rightarrow> exn + 'a list" where
  "filter_js p [] = Inr []"
| "filter_js p (x # xs) =
     (case p x of
        Inl e \<Rightarrow> Inl e
      | Inr b \<Rightarrow>
          (case filter_js p xs of
             Inl e \<Rightarrow> Inl e
           | Inr ys \<Rightarrow> Inr (if b then x # ys else ys)))"

section \<open>The configuration file and the responses\<close>

text \<open>
  \<open>content\<close> is what \<^verbatim>\<open>JSON.parse(fs.readFileSync(configPath, "utf-8"))\<close> yields:
  \<open>None\<close> when the file is missing or is not JSON (the call throws). \<open>writable\<close> tells
  whether \<^verbatim>\<open>fs.writeFileSync\<close> succeeds; a failed write throws and leaves the file as
  it was. A value written with \<^verbatim>\<open>JSON.stringify\<close> is read back as the same value.
  Which exception a failing call throws is not observable: every handler catches all of
  them alike, so one name per source of failure is enough.
\<close>

record store =
  content :: "json option"
  writable :: bool

record response =
  status :: nat
  body :: json

definition json_response :: "json \<Rightarrow> nat \<Rightarrow> response" where
  "json_response b s = \<lparr>status = s, body = b\<rparr>"

definition readConfig :: "store \<Rightarrow> exn + json" where
  "readConfig st = (case content st of None \<Rightarrow> Inl SyntaxError | Some config \<Rightarrow> Inr config)"

definition writeConfig :: "store \<Rightarrow> json \<Rightarrow> exn + store" where
  "writeConfig st config =
     (if writable st then Inr (st\<lparr>content := Some config\<rparr>) else Inl IOError)"

definition request_json :: "json option \<Rightarrow> exn + json" where
  "request_json request = (case request of None \<Rightarrow> Inl SyntaxError | Some v \<Rightarrow> Inr v)"

definition success_body :: json where
  "success_body = JObj [(''success'', JBool True)]"

definition error_body :: "string \<Rightarrow> json" where
  "error_body msg = JObj [(''error'', JStr msg)]"

section \<open>The sites route: GET, POST, DELETE\<close>

text \<open>\<^verbatim>\<open>config.wordpress_sites || []\<close>\<close>

definition or_empty :: "json option \<Rightarrow> json" where
  "or_empty v = (case v of Some w \<Rightarrow> (if truthy v then w else JArr []) | None \<Rightarrow> JArr [])"

definition GET_sites :: "store \<Rightarrow> response" where
  "GET_sites st =
     (case readConfig st of
        Inl e \<Rightarrow> json_response (error_body ''Failed to load WordPress sites'') 500
      | Inr config \<Rightarrow>
          (case getprop config ''wordpress_sites'' of
             Inl e \<Rightarrow> json_response (error_body ''Failed to load WordPress sites'') 500
           | Inr v \<Rightarrow> json_response (or_empty v) 200))"

text \<open>The callback \<^verbatim>\<open>(s) => s.url === site.url\<close> of POST.\<close>

definition same_url :: "json \<Rightarrow> json \<Rightarrow> exn + bool" where
  "same_url site s =
     (case getprop s ''url'' of
        Inl e \<Rightarrow> Inl e
      | Inr a \<Rightarrow> (case getprop site ''url'' of Inl e \<Rightarrow> Inl e | Inr b \<Rightarrow> Inr (strict_eq a b)))"

text \<open>
  The part of POST from the lookup of the index to the updated array:
  \<^verbatim>\<open>findIndex\<close>, then the assignment at the index or \<^verbatim>\<open>push\<close>.
\<close>

definition put_site :: "json list \<Rightarrow> json \<Rightarrow> exn + json list" where
  "put_site xs site =
     (case findIndex (same_url site) xs of
        Inl e \<Rightarrow> Inl e
      | Inr existingIndex \<Rightarrow>
          Inr (if existingIndex \<noteq> - 1 then xs[nat existingIndex := site] else xs @ [site]))"

text \<open>
  The body of the \<^verbatim>\<open>try\<close> block of POST. The cases on the parsed configuration:
  null throws at \<^verbatim>\<open>config.wordpress_sites\<close>; on an object a missing or falsy
  \<^verbatim>\<open>wordpress_sites\<close> is first set to the empty array, and a truthy value that is not
  an array has no \<^verbatim>\<open>findIndex\<close>; on an array the new property is not an element, so
  \<^verbatim>\<open>JSON.stringify\<close> writes the array as it was; on a boolean, number or string the
  assignment of the property throws in a module (strict mode).
\<close>

definition POST_sites_try :: "store \<Rightarrow> json option \<Rightarrow> exn + store" where
  "POST_sites_try st request =
     (case request_json request of
        Inl e \<Rightarrow> Inl e
      | Inr site \<Rightarrow>
          (case readConfig st of
             Inl e \<Rightarrow> Inl e
           | Inr JNull \<Rightarrow> Inl TypeError
           | Inr (JObj kvs) \<Rightarrow>
               (case or_empty (map_of kvs ''wordpress_sites'') of
                  JArr xs \<Rightarrow>
                    (case put_site xs site of
                       Inl e \<Rightarrow> Inl e
                     | Inr xs' \<Rightarrow> writeConfig st (JObj (assign kvs ''wordpress_sites'' (JArr xs'))))
                | _ \<Rightarrow> Inl TypeError)
           | Inr (JArr ys) \<Rightarrow>
               (case put_site [] site of
                  Inl e \<Rightarrow> Inl e
                | Inr xs' \<Rightarrow> writeConfig st (JArr ys))
           | Inr _ \<Rightarrow> Inl TypeError))"

definition POST_sites :: "store \<Rightarrow> json option \<Rightarrow> store \<times> response" where
  "POST_sites st request =
     (case POST_sites_try st request of
        Inl e \<Rightarrow> (st, json_response (error_body ''Failed to save WordPress site'') 500)
      | Inr st' \<Rightarrow> (st', json_response success_body 200))"

text \<open>The callback \<^verbatim>\<open>(site) => site.url !== url\<close> of DELETE.\<close>

definition other_url :: "json option \<Rightarrow> json \<Rightarrow> exn + bool" where
  "other_url u site =
     (case getprop site ''url'' of Inl e \<Rightarrow> Inl e | Inr a \<Rightarrow> Inr (\<not> strict_eq a u))"

text \<open>
  The body of the \<^verbatim>\<open>try\<close> block of DELETE. The destructuring \<^verbatim>\<open>const { url } = ...\<close>
  throws on null. A falsy or missing \<^verbatim>\<open>wordpress_sites\<close> skips the write; a truthy
  value that is not an array has no \<^verbatim>\<open>filter\<close>.
\<close>

definition DELETE_sites_try :: "store \<Rightarrow> json option \<Rightarrow> exn + store" where
  "DELETE_sites_try st request =
     (case request_json request of
        Inl e \<Rightarrow> Inl e
      | Inr b \<Rightarrow>
          (case getprop b ''url'' of
             Inl e \<Rightarrow> Inl e
           | Inr u \<Rightarrow>
               (case readConfig st of
                  Inl e \<Rightarrow> Inl e
                | Inr config \<Rightarrow>
                    (case getprop config ''wordpress_sites'' of
                       Inl e \<Rightarrow> Inl e
                     | Inr w \<Rightarrow>
                         (if truthy w then
                            (case (config, w) of
                               (JObj kvs, Some (JArr xs)) \<Rightarrow>
                                 (case filter_js (other_url u) xs of
                                    Inl e \<Rightarrow> Inl e
                                  | Inr xs' \<Rightarrow>
                                      writeConfig st
                                        (JObj (assign kvs ''wordpress_sites'' (JArr xs'))))
                             | _ \<Rightarrow> Inl TypeError)
                          else Inr st)))))"

definition DELETE_sites :: "store \<Rightarrow> json option \<Rightarrow> store \<times> response" where
  "DELETE_sites st request =
     (case DELETE_sites_try st request of
        Inl e \<Rightarrow> (st, json_response (error_body ''Failed to delete WordPress site'') 500)
      | Inr st' \<Rightarrow> (st', json_response success_body 200))"

section \<open>The test-connection route\<close>

text \<open>
  What happens to the requests that \<^verbatim>\<open>axios.get\<close> sends, in order: the request of the
  route first, then one request for every redirect that axios follows. A request finds no
  connection, or the period of the timeout passes without the activity the timer waits
  for, or an answer arrives with a status code, (lower-cased) headers and a body. The body
  is the parsed JSON when the answer is JSON and the text as a string otherwise. A request
  beyond the end of the list finds no connection. Real time is not modelled: when the
  timer armed by \<^verbatim>\<open>timeout: 5000\<close> fires is the environment's to say. The URLs and the
  credentials are not part of the model either.
\<close>

datatype hop =
    Unreachable
  | Timeout_elapsed
  | Answer (status_code: nat) (answer_headers: "(string \<times> string) list") (answer_data: json)

text \<open>
  The route does not set \<^verbatim>\<open>maxRedirects\<close>, so the default of the installed axios
  applies; the default differs between versions of axios and is a parameter here.
\<close>

record probe_env =
  axios_maxRedirects :: nat
  answers :: "hop list"

datatype axios_code =
  ERR_NETWORK | ECONNABORTED | ERR_FR_TOO_MANY_REDIRECTS | ERR_BAD_STATUS nat

datatype failure = Thrown exn | Axios axios_code

record axios_response =
  headers :: "(string \<times> string) list"
  data :: json

text \<open>
  An answer is a redirect that axios follows when following is on (\<^verbatim>\<open>maxRedirects\<close> is
  not zero), the status is in 300..399 and the answer has a non-empty
  \<^verbatim>\<open>location\<close> header.
\<close>

definition is_redirect :: "nat \<Rightarrow> nat \<Rightarrow> (string \<times> string) list \<Rightarrow> bool" where
  "is_redirect maxRedirects s h =
     (maxRedirects \<noteq> 0 \<and> 300 \<le> s \<and> s < 400 \<and>
      (case map_of h ''location'' of None \<Rightarrow> False | Some l \<Rightarrow> l \<noteq> []))"

text \<open>
  \<^verbatim>\<open>axios.get(url, { auth, timeout })\<close> with the default \<^verbatim>\<open>validateStatus\<close>. The third
  argument counts the redirects followed so far. The promise is rejected when a request
  finds no connection, when an armed timer (a non-zero \<^verbatim>\<open>timeout\<close>) fires, when one
  redirect more than \<^verbatim>\<open>maxRedirects\<close> comes, and when the status of the last answer
  is outside 200..299 (a refused authentication is the status 401); it is resolved with
  the last answer otherwise. Without a timer the period passes and the request goes on.
\<close>

fun follow :: "nat \<Rightarrow> nat \<Rightarrow> nat \<Rightarrow> hop list \<Rightarrow> axios_code + axios_response" where
  "follow timeout maxRedirects k [] = Inl ERR_NETWORK"
| "follow timeout maxRedirects k (Unreachable # rest) = Inl ERR_NETWORK"
| "follow timeout maxRedirects k (Timeout_elapsed # rest) =
     (if timeout \<noteq> 0 then Inl ECONNABORTED else follow timeout maxRedirects k rest)"
| "follow timeout maxRedirects k (Answer s h d # rest) =
     (if is_redirect maxRedirects s h then
        (if maxRedirects < Suc k then Inl ERR_FR_TOO_MANY_REDIRECTS
         else follow timeout maxRedirects (Suc k) rest)
      else if 200 \<le> s \<and> s < 300 then Inr \<lparr>headers = h, data = d\<rparr>
      else Inl (ERR_BAD_STATUS s))"

definition axios_get :: "nat \<Rightarrow> probe_env \<Rightarrow> axios_code + axios_response" where
  "axios_get timeout env = follow timeout (axios_maxRedirects env) 0 (answers env)"

text \<open>
  \<^verbatim>\<open>response.data[0]\<close>: null throws; an array gives its first element, a string its first
  character, an object its property \<^verbatim>\<open>"0"\<close>; anything else, and anything empty, gives
  undefined.
\<close>

fun index0 :: "json \<Rightarrow> exn + json option" where
  "index0 JNull = Inl TypeError"
| "index0 (JArr xs) = Inr (case xs of [] \<Rightarrow> None | x # _ \<Rightarrow> Some x)"
| "index0 (JStr s) = Inr (case s of [] \<Rightarrow> None | c # _ \<Rightarrow> Some (JStr [c]))"
| "index0 (JObj kvs) = Inr (map_of kvs ''0'')"
| "index0 v = Inr None"

text \<open>\<^verbatim>\<open>first?.date\<close>: undefined and null are short-circuited to undefined.\<close>

fun optional_date :: "json option \<Rightarrow> json option" where
  "optional_date None = None"
| "optional_date (Some JNull) = None"
| "optional_date (Some (JObj kvs)) = map_of kvs ''date''"
| "optional_date (Some v) = None"

text \<open>\<^verbatim>\<open>v || null\<close>\<close>

definition or_null :: "json option \<Rightarrow> json" where
  "or_null v = (case v of Some w \<Rightarrow> (if truthy v then w else JNull) | None \<Rightarrow> JNull)"

text \<open>
  The object given to \<^verbatim>\<open>NextResponse.json\<close> on success. A property whose value is
  undefined (\<^verbatim>\<open>version\<close>, when the header is missing) is left out of the JSON text.
\<close>

definition connected_body :: "axios_response \<Rightarrow> json option \<Rightarrow> json" where
  "connected_body r first =
     JObj ([(''connected'', JBool True)]
        @ (case map_of (headers r) ''x-wp-total'' of
             None \<Rightarrow> []
           | Some t \<Rightarrow> [(''version'', JStr t)])
        @ [(''last_post'', or_null (optional_date first))])"

definition not_connected :: response where
  "not_connected =
     json_response
       (JObj [(''connected'', JBool False), (''error'', JStr ''Failed to connect to WordPress site'')])
       500"

text \<open>
  The body of the \<^verbatim>\<open>try\<close> block of the route: the request body is parsed, the URL is
  built from \<^verbatim>\<open>site.url\<close> (a TypeError on null), the request is awaited, and the answer
  is read.
\<close>

definition POST_test_connection_try :: "json option \<Rightarrow> probe_env \<Rightarrow> failure + response" where
  "POST_test_connection_try request env =
     (case request_json request of
        Inl e \<Rightarrow> Inl (Thrown e)
      | Inr site \<Rightarrow>
          (case getprop site ''url'' of
             Inl e \<Rightarrow> Inl (Thrown e)
           | Inr u \<Rightarrow>
               (case axios_get 5000 env of
                  Inl c \<Rightarrow> Inl (Axios c)
                | Inr r \<Rightarrow>
                    (case index0 (data r) of
                       Inl e \<Rightarrow> Inl (Thrown e)
                     | Inr first \<Rightarrow> Inr (json_response (connected_body r first) 200)))))"

definition POST_test_connection :: "json option \<Rightarrow> probe_env \<Rightarrow> response" where
  "POST_test_connection request env =
     (case POST_test_connection_try request env of
        Inl e \<Rightarrow> not_connected
      | Inr r \<Rightarrow> r)"

section \<open>The client component WordPressManager\<close>

record WordPressSite =
  url :: string
  username :: string
  password :: string
  category :: string
  post_interval :: string
  max_posts_per_day :: string
  is_connected :: "json option"
  last_post :: "string option"
  next_post :: "string option"

text \<open>The state of the component: the three \<^verbatim>\<open>useState\<close> cells.\<close>

record manager =
  sites :: "WordPressSite list"
  loading :: bool
  newSite :: WordPressSite

definition blank_site :: WordPressSite where
  "blank_site =
     \<lparr>url = [], username = [], password = [], category = ''technology'',
      post_interval = ''6'', max_posts_per_day = ''4'',
      is_connected = None, last_post = None, next_post = None\<rparr>"

text \<open>\<^verbatim>\<open>JSON.stringify(site)\<close> read back by \<^verbatim>\<open>request.json()\<close>: optional fields that are
  undefined are left out.\<close>

definition site_json :: "WordPressSite \<Rightarrow> json" where
  "site_json s =
     JObj ([(''url'', JStr (url s)), (''username'', JStr (username s)),
            (''password'', JStr (password s)), (''category'', JStr (category s)),
            (''post_interval'', JStr (post_interval s)),
            (''max_posts_per_day'', JStr (max_posts_per_day s))]
        @ (case is_connected s of None \<Rightarrow> [] | Some c \<Rightarrow> [(''is_connected'', c)])
        @ (case last_post s of None \<Rightarrow> [] | Some d \<Rightarrow> [(''last_post'', JStr d)])
        @ (case next_post s of None \<Rightarrow> [] | Some d \<Rightarrow> [(''next_post'', JStr d)]))"

text \<open>
  What the component can reach: the server with its configuration file, what the probe
  of the server meets on the network, and whether the server answers at all. What it does: toasts and
  requests, recorded in order.
\<close>

record world =
  config_file :: store
  wordpress :: probe_env
  server_up :: bool

datatype effect = Toast_error string | Toast_success string | Fetch string string

text \<open>
  \<^verbatim>\<open>fetch(path, {method, body})\<close> followed by \<^verbatim>\<open>response.json()\<close>. The two route modules
  are mounted where the component addresses them. A server that does not answer rejects
  the fetch; a path or method without a handler answers with a page that is not JSON.
\<close>

definition fetch_json :: "world \<Rightarrow> string \<Rightarrow> string \<Rightarrow> json option \<Rightarrow> world \<times> (exn + json)" where
  "fetch_json w path method request =
     (if \<not> server_up w then (w, Inl TypeError)
      else if path = ''/api/wordpress/sites'' \<and> method = ''GET'' then
        (w, Inr (body (GET_sites (config_file w))))
      else if path = ''/api/wordpress/sites'' \<and> method = ''POST'' then
        (case POST_sites (config_file w) request of
           (st', r) \<Rightarrow> (w\<lparr>config_file := st'\<rparr>, Inr (body r)))
      else if path = ''/api/wordpress/sites'' \<and> method = ''DELETE'' then
        (case DELETE_sites (config_file w) request of
           (st', r) \<Rightarrow> (w\<lparr>config_file := st'\<rparr>, Inr (body r)))
      else if path = ''/api/wordpress/test-connection'' \<and> method = ''POST'' then
        (w, Inr (body (POST_test_connection request (wordpress w))))
      else (w, Inl SyntaxError))"

definition testConnection :: "world \<Rightarrow> WordPressSite \<Rightarrow> world \<times> json option \<times> effect list" where
  "testConnection w site =
     (case fetch_json w ''/api/wordpress/test-connection'' ''POST'' (Some (site_json site)) of
        (w', Inl e) \<Rightarrow> (w', Some (JBool False), [Fetch ''/api/wordpress/test-connection'' ''POST''])
      | (w', Inr d) \<Rightarrow>
          (case getprop d ''connected'' of
             Inl e \<Rightarrow> (w', Some (JBool False), [Fetch ''/api/wordpress/test-connection'' ''POST''])
           | Inr c \<Rightarrow> (w', c, [Fetch ''/api/wordpress/test-connection'' ''POST''])))"

text \<open>
  \<^verbatim>\<open>addSite\<close>: \<^verbatim>\<open>!newSite.url\<close> on a string is the test for the empty string. The list
  is typed \<^verbatim>\<open>WordPressSite[]\<close>, so the spread and the \<^verbatim>\<open>filter\<close> below cannot throw and
  the \<^verbatim>\<open>catch\<close> branches have nothing to catch; \<^verbatim>\<open>finally\<close> leaves \<open>loading\<close> false.
\<close>

definition addSite :: "world \<Rightarrow> manager \<Rightarrow> world \<times> manager \<times> effect list" where
  "addSite w m =
     (if url (newSite m) = [] \<or> username (newSite m) = [] \<or> password (newSite m) = [] then
        (w, m, [Toast_error ''Please fill in all required fields''])
      else
        (case testConnection w (newSite m) of
           (w', isConnected, es) \<Rightarrow>
             (w',
              m\<lparr>sites := sites m @ [(newSite m)\<lparr>is_connected := isConnected\<rparr>],
                newSite := blank_site,
                loading := False\<rparr>,
              es @ [Toast_success ''WordPress site added successfully''])))"

definition removeSite :: "world \<Rightarrow> manager \<Rightarrow> string \<Rightarrow> world \<times> manager \<times> effect list" where
  "removeSite w m u =
     (w,
      m\<lparr>sites := filter (\<lambda>site. url site \<noteq> u) (sites m)\<rparr>,
      [Toast_success ''WordPress site removed successfully''])"

section \<open>Observations used in the statements\<close>

text \<open>The \<^verbatim>\<open>url\<close> of a stored value, undefined where it has none.\<close>

definition url_of :: "json \<Rightarrow> json option" where
  "url_of s = (case getprop s ''url'' of Inl e \<Rightarrow> None | Inr v \<Rightarrow> v)"

text \<open>The records a client gets from GET: the array in the body of the response.\<close>

definition list_sites :: "store \<Rightarrow> json list" where
  "list_sites st = (case body (GET_sites st) of JArr xs \<Rightarrow> xs | _ \<Rightarrow> [])"

text \<open>How many records of a collection carry the url \<open>u\<close>.\<close>

definition url_count :: "string \<Rightarrow> json list \<Rightarrow> nat" where
  "url_count u xs = length (filter (\<lambda>s. url_of s = Some (JStr u)) xs)"

text \<open>
  Insert-or-replace keyed by url, as a function on the collection: the first record with
  the url \<open>u\<close> gives its place to the new record; without such a record the new one goes
  to the end.
\<close>

fun replace_first :: "string \<Rightarrow> json \<Rightarrow> json list \<Rightarrow> json list" where
  "replace_first u site [] = [site]"
| "replace_first u site (x # xs) =
     (if url_of x = Some (JStr u) then site # xs else x # replace_first u site xs)"

text \<open>
  The top-level keys of the stored document other than \<^verbatim>\<open>wordpress_sites\<close>, with their
  values and in their order, and the value the document holds under a key.
\<close>

definition unrelated :: "store \<Rightarrow> (string \<times> json) list" where
  "unrelated st =
     (case content st of
        Some (JObj kvs) \<Rightarrow> filter (\<lambda>p. fst p \<noteq> ''wordpress_sites'') kvs
      | _ \<Rightarrow> [])"

definition top_level :: "store \<Rightarrow> string \<Rightarrow> json option" where
  "top_level st k = (case content st of Some (JObj kvs) \<Rightarrow> map_of kvs k | _ \<Rightarrow> None)"

text \<open>How many records of the component's list carry the url \<open>u\<close>.\<close>

definition local_count :: "string \<Rightarrow> WordPressSite list \<Rightarrow> nat" where
  "local_count u ss = length (filter (\<lambda>s. url s = u) ss)"

text \<open>Site records and stores for the concrete instances below.\<close>

definition record_of :: "string \<Rightarrow> string \<Rightarrow> json" where
  "record_of u c =
     JObj [(''url'', JStr u), (''username'', JStr ''admin''), (''password'', JStr ''x''),
           (''category'', JStr c), (''post_interval'', JStr ''6''),
           (''max_posts_per_day'', JStr ''4'')]"

definition store_of :: "json list \<Rightarrow> store" where
  "store_of xs =
     \<lparr>content = Some (JObj [(''theme'', JStr ''dark''), (''wordpress_sites'', JArr xs),
                            (''language'', JStr ''en'')]),
      writable = True\<rparr>"

definition env_of :: "hop list \<Rightarrow> probe_env" where
  "env_of hs = \<lparr>axios_maxRedirects = 5, answers = hs\<rparr>"

definition world_of :: "json list \<Rightarrow> hop list \<Rightarrow> world" where
  "world_of xs hs = \<lparr>config_file = store_of xs, wordpress = env_of hs, server_up = True\<rparr>"

definition candidate :: "string \<Rightarrow> string \<Rightarrow> string \<Rightarrow> WordPressSite" where
  "candidate u n p = blank_site\<lparr>url := u, username := n, password := p\<rparr>"

section \<open>Facts about the JavaScript primitives\<close>

lemma findIndex_total:
  "\<forall>x\<in>set xs. p x = Inr (q x) \<Longrightarrow>
   findIndex p xs =
     Inr (if \<exists>x\<in>set xs. q x then int (length (takeWhile (\<lambda>x. \<not> q x) xs)) else - 1)"
  by (induction xs) (auto split: sum.splits bool.splits)

lemma filter_js_total:
  "\<forall>x\<in>set xs. p x = Inr (q x) \<Longrightarrow> filter_js p xs = Inr (filter q xs)"
  by (induction xs) (auto split: sum.splits)

lemma strict_eq_str: "strict_eq a (Some (JStr u)) = (a = Some (JStr u))"
  by (cases "(a, Some (JStr u))" rule: strict_eq.cases) auto

lemma same_url_str:
  "getprop site ''url'' = Inr (Some (JStr u)) \<Longrightarrow> s \<noteq> JNull \<Longrightarrow>
   same_url site s = Inr (url_of s = Some (JStr u))"
  by (cases s) (auto simp: same_url_def url_of_def strict_eq_str)

lemma other_url_str:
  "s \<noteq> JNull \<Longrightarrow> other_url (Some (JStr u)) s = Inr (url_of s \<noteq> Some (JStr u))"
  by (cases s) (auto simp: other_url_def url_of_def strict_eq_str)

lemma map_of_assign: "map_of (assign kvs k v) = (map_of kvs)(k \<mapsto> v)"
  by (induction kvs) (auto simp: fun_eq_iff)

lemma assign_same: "map_of kvs k = Some v \<Longrightarrow> assign kvs k v = kvs"
  by (induction kvs) (auto split: if_splits)

lemma assign_others:
  "filter (\<lambda>p. fst p \<noteq> k) (assign kvs k v) = filter (\<lambda>p. fst p \<noteq> k) kvs"
  by (induction kvs) auto

section \<open>Insert-or-replace on the collection\<close>

lemma replace_first_alt:
  "replace_first u site xs =
     (if \<exists>x\<in>set xs. url_of x = Some (JStr u)
      then xs[length (takeWhile (\<lambda>x. url_of x \<noteq> Some (JStr u)) xs) := site]
      else xs @ [site])"
  by (induction xs) auto

lemma put_site_replace_first:
  assumes "getprop site ''url'' = Inr (Some (JStr u))" "JNull \<notin> set xs"
  shows "put_site xs site = Inr (replace_first u site xs)"
proof -
  have "\<forall>s\<in>set xs. same_url site s = Inr (url_of s = Some (JStr u))"
    using assms by (auto intro!: same_url_str)
  from findIndex_total [OF this] show ?thesis
    by (simp add: put_site_def replace_first_alt)
qed

lemma url_count_replace_first:
  "url_of site = Some (JStr u) \<Longrightarrow>
   url_count u (replace_first u site xs) = max 1 (url_count u xs)"
  by (induction xs) (auto simp: url_count_def)

lemma length_replace_first:
  "length (replace_first u site xs) =
     (if url_count u xs = 0 then Suc (length xs) else length xs)"
  by (induction xs) (auto simp: url_count_def)

lemma replace_first_absent:
  "url_count u xs = 0 \<Longrightarrow> replace_first u site xs = xs @ [site]"
  by (induction xs) (auto simp: url_count_def split: if_splits)

lemma replace_first_present:
  "0 < url_count u xs \<Longrightarrow>
   \<exists>i<length xs. url_of (xs ! i) = Some (JStr u) \<and> (\<forall>j<i. url_of (xs ! j) \<noteq> Some (JStr u)) \<and>
      replace_first u site xs = xs[i := site]"
proof (induction xs)
  case Nil
  then show ?case by (simp add: url_count_def)
next
  case (Cons x xs)
  show ?case
  proof (cases "url_of x = Some (JStr u)")
    case True
    then show ?thesis by (intro exI [of _ 0]) simp
  next
    case False
    with Cons.prems have "0 < url_count u xs" by (simp add: url_count_def)
    from Cons.IH [OF this] obtain i where i: "i < length xs" "url_of (xs ! i) = Some (JStr u)"
      "\<forall>j<i. url_of (xs ! j) \<noteq> Some (JStr u)" "replace_first u site xs = xs[i := site]" by blast
    have "\<forall>j<Suc i. url_of ((x # xs) ! j) \<noteq> Some (JStr u)"
      using False i(3) by (auto simp: less_Suc_eq_0_disj)
    with i False show ?thesis by (intro exI [of _ "Suc i"]) simp
  qed
qed

lemma set_replace_first:
  "site \<in> set (replace_first u site xs) \<and> set (replace_first u site xs) \<subseteq> insert site (set xs)"
  by (induction xs) auto

section \<open>What the handlers do on a well-shaped document\<close>

lemma GET_sites_object:
  "content st = Some (JObj kvs) \<Longrightarrow>
   GET_sites st = json_response (or_empty (map_of kvs ''wordpress_sites'')) 200"
  by (simp add: GET_sites_def readConfig_def)

lemma list_sites_assigned:
  "content st = Some (JObj (assign kvs ''wordpress_sites'' (JArr ys))) \<Longrightarrow>
   GET_sites st = json_response (JArr ys) 200"
  by (simp add: GET_sites_object map_of_assign or_empty_def)

lemma POST_sites_effect:
  assumes doc: "content st = Some (JObj kvs)"
    and coll: "body (GET_sites st) = JArr xs"
    and recs: "JNull \<notin> set xs"
    and url: "getprop site ''url'' = Inr (Some (JStr u))"
    and w: "writable st"
  shows "POST_sites st (Some site) =
     (st\<lparr>content := Some (JObj (assign kvs ''wordpress_sites'' (JArr (replace_first u site xs))))\<rparr>,
      json_response success_body 200)"
proof -
  have "or_empty (map_of kvs ''wordpress_sites'') = JArr xs"
    using doc coll by (simp add: GET_sites_object json_response_def)
  then show ?thesis
    using doc w put_site_replace_first [OF url recs]
    by (simp add: POST_sites_def POST_sites_try_def request_json_def readConfig_def writeConfig_def)
qed

lemma POST_sites_list:
  assumes doc: "content st = Some (JObj kvs)"
    and coll: "body (GET_sites st) = JArr xs"
    and recs: "JNull \<notin> set xs"
    and url: "getprop site ''url'' = Inr (Some (JStr u))"
    and w: "writable st"
  shows "snd (POST_sites st (Some site)) = json_response success_body 200"
    and "list_sites (fst (POST_sites st (Some site))) = replace_first u site xs"
  using POST_sites_effect [OF assms]
  by (simp_all add: list_sites_def list_sites_assigned json_response_def)

lemma url_of_str: "getprop site ''url'' = Inr (Some (JStr u)) \<Longrightarrow> url_of site = Some (JStr u)"
  by (simp add: url_of_def)

lemmas eval_defs =
  store_of_def record_of_def POST_sites_def POST_sites_try_def DELETE_sites_def
  DELETE_sites_try_def GET_sites_def request_json_def readConfig_def writeConfig_def
  or_empty_def put_site_def same_url_def other_url_def json_response_def list_sites_def
  url_count_def url_of_def success_body_def error_body_def unrelated_def top_level_def

section \<open>The registry: upsert, list, delete\<close>

text \<open>
  Claim C1, as amended. The document is an object whose collection (what GET returns) is
  the array \<open>xs\<close> with no null element, the posted record has the string \<open>u\<close> as its url,
  and the file can be written. Then POST answers 200 with \<open>{success: true}\<close>. When some
  stored record has the url \<open>u\<close>, the first such record is replaced at its index and the
  length of the collection is unchanged; when none has, the record is appended at the end.
  The number of records with the url \<open>u\<close> becomes one when it was zero or one, and stays
  what it was when it was larger: uniqueness of the url is kept, not established.
\<close>

theorem upsert_by_url:
  assumes doc: "content st = Some (JObj kvs)"
    and coll: "body (GET_sites st) = JArr xs"
    and recs: "JNull \<notin> set xs"
    and url: "getprop site ''url'' = Inr (Some (JStr u))"
    and w: "writable st"
  shows "snd (POST_sites st (Some site)) = json_response success_body 200 \<and>
    (0 < url_count u xs \<longrightarrow>
       length (list_sites (fst (POST_sites st (Some site)))) = length xs \<and>
       (\<exists>i<length xs. url_of (xs ! i) = Some (JStr u) \<and>
          (\<forall>j<i. url_of (xs ! j) \<noteq> Some (JStr u)) \<and>
          list_sites (fst (POST_sites st (Some site))) = xs[i := site])) \<and>
    (url_count u xs = 0 \<longrightarrow> list_sites (fst (POST_sites st (Some site))) = xs @ [site]) \<and>
    url_count u (list_sites (fst (POST_sites st (Some site)))) = max 1 (url_count u xs)"
proof -
  note l = POST_sites_list [OF assms]
  have "0 < url_count u xs \<longrightarrow> length (replace_first u site xs) = length xs"
    by (simp add: length_replace_first)
  moreover have "url_count u (replace_first u site xs) = max 1 (url_count u xs)"
    by (rule url_count_replace_first [OF url_of_str [OF url]])
  ultimately show ?thesis
    using l replace_first_present [of u xs site] replace_first_absent [of u xs site]
    by simp
qed


text \<open>
  An instance of each case: an upsert of a stored url replaces the record at index 0, an
  upsert of a new url appends.
\<close>

theorem upsert_by_url_witness:
  "list_sites (fst (POST_sites
       (store_of [record_of ''https://a.example'' ''tech'', record_of ''https://b.example'' ''news''])
       (Some (record_of ''https://a.example'' ''food''))))
     = [record_of ''https://a.example'' ''food'', record_of ''https://b.example'' ''news''] \<and>
   list_sites (fst (POST_sites
       (store_of [record_of ''https://a.example'' ''tech'', record_of ''https://b.example'' ''news''])
       (Some (record_of ''https://c.example'' ''food''))))
     = [record_of ''https://a.example'' ''tech'', record_of ''https://b.example'' ''news'',
        record_of ''https://c.example'' ''food'']"
proof -
  let ?xs = "[record_of ''https://a.example'' ''tech'', record_of ''https://b.example'' ''news'']"
  let ?kvs = "[(''theme'', JStr ''dark''), (''wordpress_sites'', JArr ?xs), (''language'', JStr ''en'')]"
  have doc: "content (store_of ?xs) = Some (JObj ?kvs)" by (simp add: store_of_def)
  have coll: "body (GET_sites (store_of ?xs)) = JArr ?xs" by (simp add: eval_defs)
  have recs: "JNull \<notin> set ?xs" by (simp add: record_of_def)
  have w: "writable (store_of ?xs)" by (simp add: store_of_def)
  have ua: "getprop (record_of ''https://a.example'' ''food'') ''url'' = Inr (Some (JStr ''https://a.example''))"
    by (simp add: record_of_def)
  have uc: "getprop (record_of ''https://c.example'' ''food'') ''url'' = Inr (Some (JStr ''https://c.example''))"
    by (simp add: record_of_def)
  have ca: "0 < url_count ''https://a.example'' ?xs" by (simp add: url_count_def url_of_def record_of_def)
  have cc: "url_count ''https://c.example'' ?xs = 0" by (simp add: url_count_def url_of_def record_of_def)
  from upsert_by_url [OF doc coll recs ua w] ca
  obtain i where i: "i < length ?xs" "url_of (?xs ! i) = Some (JStr ''https://a.example'')"
    "list_sites (fst (POST_sites (store_of ?xs) (Some (record_of ''https://a.example'' ''food'')))) = ?xs[i := record_of ''https://a.example'' ''food'']"
    by blast
  have "i = 0"
  proof (rule ccontr)
    assume "i \<noteq> 0"
    with i(1) have "i = 1" by simp
    with i(2) show False by (simp add: url_of_def record_of_def)
  qed
  with i(3) have first: "list_sites (fst (POST_sites (store_of ?xs) (Some (record_of ''https://a.example'' ''food'')))) = [record_of ''https://a.example'' ''food'', record_of ''https://b.example'' ''news'']"
    by simp
  from upsert_by_url [OF doc coll recs uc w] cc first show ?thesis by simp
qed

text \<open>
  Claim C1 as stated fails on a collection that already holds two records with the url:
  after the upsert both places still carry it.
\<close>

theorem upsert_duplicates_counterexample:
  "url_count ''https://a.example''
     (list_sites (fst (POST_sites
        (store_of [record_of ''https://a.example'' ''tech'', record_of ''https://a.example'' ''news''])
        (Some (record_of ''https://a.example'' ''food''))))) = 2"
  by (simp add: eval_defs)

text \<open>
  Claim C7, as amended. On a document as in C1 in which no record has the url of \<open>B\<close>,
  for records \<open>A\<close> and \<open>B\<close> with distinct string urls, upsert of \<open>A\<close>, then upsert of
  \<open>B\<close>, then GET answers 200 with a collection that holds \<open>A\<close> at an index below the
  index of \<open>B\<close>.
\<close>

theorem two_upserts_in_order:
  assumes doc: "content st = Some (JObj kvs)"
    and coll: "body (GET_sites st) = JArr xs"
    and recs: "JNull \<notin> set xs"
    and urlA: "getprop A ''url'' = Inr (Some (JStr a))"
    and urlB: "getprop B ''url'' = Inr (Some (JStr b))"
    and ab: "a \<noteq> b"
    and fresh: "url_count b xs = 0"
    and w: "writable st"
  shows "\<exists>ys i j. GET_sites (fst (POST_sites (fst (POST_sites st (Some A))) (Some B)))
             = json_response (JArr ys) 200 \<and>
           i < j \<and> j < length ys \<and> ys ! i = A \<and> ys ! j = B"
proof -
  let ?xs1 = "replace_first a A xs"
  let ?st1 = "st\<lparr>content := Some (JObj (assign kvs ''wordpress_sites'' (JArr ?xs1)))\<rparr>"
  have p1: "POST_sites st (Some A) = (?st1, json_response success_body 200)"
    by (rule POST_sites_effect [OF doc coll recs urlA w])
  have doc1: "content ?st1 = Some (JObj (assign kvs ''wordpress_sites'' (JArr ?xs1)))" by simp
  have coll1: "body (GET_sites ?st1) = JArr ?xs1"
    by (simp add: list_sites_assigned json_response_def)
  have "A \<noteq> JNull" using urlA by auto
  with recs set_replace_first [of A a xs] have recs1: "JNull \<notin> set ?xs1" by auto
  have w1: "writable ?st1" using w by simp
  have "url_of A \<noteq> Some (JStr b)" using url_of_str [OF urlA] ab by simp
  with fresh set_replace_first [of A a xs] have fresh1: "url_count b ?xs1 = 0"
    by (auto simp: url_count_def filter_empty_conv)
  let ?ys = "?xs1 @ [B]"
  have p2: "POST_sites ?st1 (Some B) =
      (?st1\<lparr>content := Some (JObj (assign (assign kvs ''wordpress_sites'' (JArr ?xs1)) ''wordpress_sites'' (JArr ?ys)))\<rparr>,
       json_response success_body 200)"
    using POST_sites_effect [OF doc1 coll1 recs1 urlB w1] replace_first_absent [OF fresh1]
    by simp
  have g: "GET_sites (fst (POST_sites (fst (POST_sites st (Some A))) (Some B))) = json_response (JArr ?ys) 200"
    by (simp add: p1 p2 list_sites_assigned)
  from set_replace_first [of A a xs] obtain i where i: "i < length ?xs1" "?xs1 ! i = A"
    by (auto simp: in_set_conv_nth)
  then have "i < length ?xs1 \<and> length ?xs1 < length ?ys \<and> ?ys ! i = A \<and> ?ys ! length ?xs1 = B"
    by (simp add: nth_append)
  with g show ?thesis by blast
qed

text \<open>An instance: a store with one unrelated record.\<close>

theorem two_upserts_in_order_witness:
  "\<exists>ys i j. GET_sites (fst (POST_sites (fst (POST_sites
         (store_of [record_of ''https://c.example'' ''tech''])
         (Some (record_of ''https://a.example'' ''food''))))
         (Some (record_of ''https://b.example'' ''news''))))
       = json_response (JArr ys) 200 \<and>
     i < j \<and> j < length ys \<and> ys ! i = record_of ''https://a.example'' ''food'' \<and>
     ys ! j = record_of ''https://b.example'' ''news''"
proof -
  let ?xs = "[record_of ''https://c.example'' ''tech'']"
  let ?kvs = "[(''theme'', JStr ''dark''), (''wordpress_sites'', JArr ?xs), (''language'', JStr ''en'')]"
  have doc: "content (store_of ?xs) = Some (JObj ?kvs)" by (simp add: store_of_def)
  have coll: "body (GET_sites (store_of ?xs)) = JArr ?xs" by (simp add: eval_defs)
  have recs: "JNull \<notin> set ?xs" by (simp add: record_of_def)
  have w: "writable (store_of ?xs)" by (simp add: store_of_def)
  have ua: "getprop (record_of ''https://a.example'' ''food'') ''url'' = Inr (Some (JStr ''https://a.example''))"
    by (simp add: record_of_def)
  have ub: "getprop (record_of ''https://b.example'' ''news'') ''url'' = Inr (Some (JStr ''https://b.example''))"
    by (simp add: record_of_def)
  have ab: "''https://a.example'' \<noteq> ''https://b.example''" by simp
  have fresh: "url_count ''https://b.example'' ?xs = 0"
    by (simp add: url_count_def url_of_def record_of_def)
  show ?thesis by (rule two_upserts_in_order [OF doc coll recs ua ub ab fresh w])
qed

text \<open>
  Claim C7 as stated fails when the store already holds a record with the url of \<open>B\<close>:
  \<open>B\<close> takes that record's place, ahead of \<open>A\<close>.
\<close>

theorem two_upserts_order_counterexample:
  "list_sites (fst (POST_sites (fst (POST_sites
       (store_of [record_of ''https://b.example'' ''tech''])
       (Some (record_of ''https://a.example'' ''food''))))
       (Some (record_of ''https://b.example'' ''news''))))
     = [record_of ''https://b.example'' ''news'', record_of ''https://a.example'' ''food'']"
  by (simp add: eval_defs)

lemma POST_sites_try_frame:
  assumes "POST_sites_try st request = Inr st'"
  shows "content st' = content st \<or>
    (\<exists>kvs v. content st = Some (JObj kvs) \<and> content st' = Some (JObj (assign kvs ''wordpress_sites'' v)))"
  using assms
  by (auto simp: POST_sites_try_def readConfig_def request_json_def writeConfig_def
      split: sum.splits option.splits json.splits if_splits)

lemma DELETE_sites_try_frame:
  assumes "DELETE_sites_try st request = Inr st'"
  shows "content st' = content st \<or>
    (\<exists>kvs v. content st = Some (JObj kvs) \<and> content st' = Some (JObj (assign kvs ''wordpress_sites'' v)))"
  using assms
  by (auto simp: DELETE_sites_try_def readConfig_def request_json_def writeConfig_def
      split: sum.splits option.splits json.splits if_splits)

lemma frame_other_keys:
  assumes "content st' = content st \<or>
    (\<exists>kvs v. content st = Some (JObj kvs) \<and> content st' = Some (JObj (assign kvs ''wordpress_sites'' v)))"
  shows "unrelated st' = unrelated st \<and> (\<forall>k. k \<noteq> ''wordpress_sites'' \<longrightarrow> top_level st' k = top_level st k)"
  using assms by (auto simp: unrelated_def top_level_def assign_others map_of_assign)

lemma POST_sites_cases:
  "(\<exists>st'. POST_sites_try st request = Inr st' \<and> POST_sites st request = (st', json_response success_body 200)) \<or>
   (POST_sites st request = (st, json_response (error_body ''Failed to save WordPress site'') 500))"
  by (auto simp: POST_sites_def split: sum.splits)

lemma DELETE_sites_cases:
  "(\<exists>st'. DELETE_sites_try st request = Inr st' \<and> DELETE_sites st request = (st', json_response success_body 200)) \<or>
   (DELETE_sites st request = (st, json_response (error_body ''Failed to delete WordPress site'') 500))"
  by (auto simp: DELETE_sites_def split: sum.splits)

text \<open>
  Claim C3. For every store and every request body, a POST or a DELETE that answers 200
  leaves the document with the same top-level keys other than \<^verbatim>\<open>wordpress_sites\<close>,
  with the same values and in the same order; each such key reads as before.
\<close>

theorem writes_keep_other_keys:
  "(status (snd (POST_sites st request)) = 200 \<longrightarrow>
      unrelated (fst (POST_sites st request)) = unrelated st \<and>
      (\<forall>k. k \<noteq> ''wordpress_sites'' \<longrightarrow> top_level (fst (POST_sites st request)) k = top_level st k)) \<and>
   (status (snd (DELETE_sites st request)) = 200 \<longrightarrow>
      unrelated (fst (DELETE_sites st request)) = unrelated st \<and>
      (\<forall>k. k \<noteq> ''wordpress_sites'' \<longrightarrow> top_level (fst (DELETE_sites st request)) k = top_level st k))"
proof -
  have post: "unrelated (fst (POST_sites st request)) = unrelated st \<and>
      (\<forall>k. k \<noteq> ''wordpress_sites'' \<longrightarrow> top_level (fst (POST_sites st request)) k = top_level st k)"
    using POST_sites_cases [of st request]
  proof
    assume "\<exists>st'. POST_sites_try st request = Inr st' \<and> POST_sites st request = (st', json_response success_body 200)"
    then obtain st' where s: "POST_sites_try st request = Inr st'" "POST_sites st request = (st', json_response success_body 200)"
      by blast
    from frame_other_keys [OF POST_sites_try_frame [OF s(1)]] s(2) show ?thesis by simp
  next
    assume "POST_sites st request = (st, json_response (error_body ''Failed to save WordPress site'') 500)"
    then show ?thesis by simp
  qed
  have del: "unrelated (fst (DELETE_sites st request)) = unrelated st \<and>
      (\<forall>k. k \<noteq> ''wordpress_sites'' \<longrightarrow> top_level (fst (DELETE_sites st request)) k = top_level st k)"
    using DELETE_sites_cases [of st request]
  proof
    assume "\<exists>st'. DELETE_sites_try st request = Inr st' \<and> DELETE_sites st request = (st', json_response success_body 200)"
    then obtain st' where s: "DELETE_sites_try st request = Inr st'" "DELETE_sites st request = (st', json_response success_body 200)"
      by blast
    from frame_other_keys [OF DELETE_sites_try_frame [OF s(1)]] s(2) show ?thesis by simp
  next
    assume "DELETE_sites st request = (st, json_response (error_body ''Failed to delete WordPress site'') 500)"
    then show ?thesis by simp
  qed
  from post del show ?thesis by blast
qed

text \<open>An upsert and a delete on a document with two other keys.\<close>

theorem writes_keep_other_keys_witness:
  "status (snd (POST_sites (store_of [record_of ''https://a.example'' ''tech''])
       (Some (record_of ''https://b.example'' ''news'')))) = 200 \<and>
   unrelated (fst (POST_sites (store_of [record_of ''https://a.example'' ''tech''])
       (Some (record_of ''https://b.example'' ''news''))))
     = [(''theme'', JStr ''dark''), (''language'', JStr ''en'')] \<and>
   status (snd (DELETE_sites (store_of [record_of ''https://a.example'' ''tech''])
       (Some (JObj [(''url'', JStr ''https://a.example'')])))) = 200 \<and>
   unrelated (fst (DELETE_sites (store_of [record_of ''https://a.example'' ''tech''])
       (Some (JObj [(''url'', JStr ''https://a.example'')]))))
     = [(''theme'', JStr ''dark''), (''language'', JStr ''en'')] \<and>
   list_sites (fst (DELETE_sites (store_of [record_of ''https://a.example'' ''tech''])
       (Some (JObj [(''url'', JStr ''https://a.example'')])))) = []"
proof -
  let ?st = "store_of [record_of ''https://a.example'' ''tech'']"
  have p: "status (snd (POST_sites ?st (Some (record_of ''https://b.example'' ''news'')))) = 200"
    by (simp add: eval_defs)
  have d: "status (snd (DELETE_sites ?st (Some (JObj [(''url'', JStr ''https://a.example'')])))) = 200"
    by (simp add: eval_defs)
  have u: "unrelated ?st = [(''theme'', JStr ''dark''), (''language'', JStr ''en'')]"
    by (simp add: unrelated_def store_of_def)
  have l: "list_sites (fst (DELETE_sites ?st (Some (JObj [(''url'', JStr ''https://a.example'')])))) = []"
    by (simp add: eval_defs)
  from writes_keep_other_keys [of ?st "Some (record_of ''https://b.example'' ''news'')"]
    writes_keep_other_keys [of ?st "Some (JObj [(''url'', JStr ''https://a.example'')])"]
    p d u l
  show ?thesis by simp
qed

lemma other_url_total:
  "x \<noteq> JNull \<Longrightarrow> other_url u x = Inr (\<not> strict_eq (url_of x) u)"
  by (cases x) (simp_all add: other_url_def url_of_def)

lemma filter_js_null:
  "JNull \<in> set xs \<Longrightarrow> filter_js (other_url u) xs = Inl TypeError"
proof (induction xs)
  case Nil
  then show ?case by simp
next
  case (Cons x xs)
  show ?case
  proof (cases "x = JNull")
    case True
    then show ?thesis by (simp add: other_url_def)
  next
    case False
    with Cons.prems have "JNull \<in> set xs" by simp
    from Cons.IH [OF this] other_url_total [OF False, of u] show ?thesis by simp
  qed
qed

lemma GET_sites_array:
  assumes "GET_sites st = json_response (JArr xs) 200"
  shows "\<exists>d v. content st = Some d \<and> d \<noteq> JNull \<and> getprop d ''wordpress_sites'' = Inr v \<and>
           or_empty v = JArr xs"
  using assms
  by (auto simp: GET_sites_def readConfig_def json_response_def error_body_def
      split: option.splits sum.splits)

lemma DELETE_sites_effect:
  assumes coll: "GET_sites st = json_response (JArr xs) 200"
    and recs: "JNull \<notin> set xs"
    and url: "getprop b ''url'' = Inr (Some (JStr u))"
    and w: "writable st"
  shows "snd (DELETE_sites st (Some b)) = json_response success_body 200 \<and>
    GET_sites (fst (DELETE_sites st (Some b)))
      = json_response (JArr (filter (\<lambda>s. url_of s \<noteq> Some (JStr u)) xs)) 200 \<and>
    (url_count u xs = 0 \<longrightarrow> fst (DELETE_sites st (Some b)) = st)"
proof -
  from GET_sites_array [OF coll] obtain d v where d: "content st = Some d" "d \<noteq> JNull"
    "getprop d ''wordpress_sites'' = Inr v" "or_empty v = JArr xs" by blast
  have f: "filter_js (other_url (Some (JStr u))) xs = Inr (filter (\<lambda>s. url_of s \<noteq> Some (JStr u)) xs)"
    using recs by (intro filter_js_total) (auto intro!: other_url_str)
  show ?thesis
  proof (cases "truthy v")
    case True
    with d(4) have v: "v = Some (JArr xs)"
      by (auto simp: or_empty_def split: option.splits)
    with d(3) obtain kvs where k: "d = JObj kvs" "map_of kvs ''wordpress_sites'' = Some (JArr xs)"
      by (cases d) auto
    have same: "url_count u xs = 0 \<Longrightarrow> filter (\<lambda>s. url_of s \<noteq> Some (JStr u)) xs = xs"
      by (auto simp: url_count_def filter_empty_conv filter_id_conv)
    have del: "DELETE_sites st (Some b) =
        (st\<lparr>content := Some (JObj (assign kvs ''wordpress_sites''
              (JArr (filter (\<lambda>s. url_of s \<noteq> Some (JStr u)) xs))))\<rparr>,
         json_response success_body 200)"
      using d(1) k url w f
      by (simp add: DELETE_sites_def DELETE_sites_try_def request_json_def readConfig_def writeConfig_def)
    have "url_count u xs = 0 \<Longrightarrow> fst (DELETE_sites st (Some b)) = st"
      using del d(1) k(1) same assign_same [OF k(2)] by simp
    with del show ?thesis by (simp add: list_sites_assigned)
  next
    case False
    with d(4) have x: "xs = []" by (auto simp: or_empty_def split: option.splits)
    have "DELETE_sites st (Some b) = (st, json_response success_body 200)"
      using d(1) d(3) url False
      by (simp add: DELETE_sites_def DELETE_sites_try_def request_json_def readConfig_def)
    with coll x show ?thesis by simp
  qed
qed

lemma DELETE_sites_null_record:
  assumes coll: "GET_sites st = json_response (JArr xs) 200"
    and bad: "JNull \<in> set xs"
    and url: "getprop b ''url'' = Inr (Some (JStr u))"
  shows "DELETE_sites st (Some b)
    = (st, json_response (error_body ''Failed to delete WordPress site'') 500)"
proof -
  from GET_sites_array [OF coll] obtain d v where d: "content st = Some d" "d \<noteq> JNull"
    "getprop d ''wordpress_sites'' = Inr v" "or_empty v = JArr xs" by blast
  from bad have "xs \<noteq> []" by auto
  with d(4) have v: "v = Some (JArr xs)"
    by (auto simp: or_empty_def split: option.splits if_splits)
  with d(3) obtain kvs where k: "d = JObj kvs" "map_of kvs ''wordpress_sites'' = Some (JArr xs)"
    by (cases d) auto
  show ?thesis
    using d(1) k url filter_js_null [OF bad, of "Some (JStr u)"]
    by (simp add: DELETE_sites_def DELETE_sites_try_def request_json_def readConfig_def)
qed

text \<open>
  Claim C4, as amended. GET answers 200 with the array \<open>xs\<close> (so the document is not
  null and \<^verbatim>\<open>wordpress_sites\<close> is absent, falsy or that array), the body carries the
  string \<open>u\<close> as url, and the file can be written. When no element of \<open>xs\<close> is null,
  DELETE answers 200 with \<open>{success: true}\<close>; the collection afterwards is \<open>xs\<close> without
  the records whose url is \<open>u\<close>, the others as they were and in their order; and when no
  record has the url \<open>u\<close> the store is what it was. When an element of \<open>xs\<close> is null,
  the callback throws on it: DELETE answers 500 with an \<open>error\<close> body and the store is
  what it was, whether or not a record has the url.
\<close>

theorem delete_by_url:
  assumes coll: "GET_sites st = json_response (JArr xs) 200"
    and url: "getprop b ''url'' = Inr (Some (JStr u))"
    and w: "writable st"
  shows "(JNull \<notin> set xs \<longrightarrow>
      snd (DELETE_sites st (Some b)) = json_response success_body 200 \<and>
      list_sites (fst (DELETE_sites st (Some b))) = filter (\<lambda>s. url_of s \<noteq> Some (JStr u)) xs \<and>
      url_count u (list_sites (fst (DELETE_sites st (Some b)))) = 0 \<and>
      (url_count u xs = 0 \<longrightarrow> fst (DELETE_sites st (Some b)) = st)) \<and>
    (JNull \<in> set xs \<longrightarrow>
      DELETE_sites st (Some b)
        = (st, json_response (JObj [(''error'', JStr ''Failed to delete WordPress site'')]) 500))"
proof (intro conjI impI)
  assume recs: "JNull \<notin> set xs"
  have z: "url_count u (filter (\<lambda>s. url_of s \<noteq> Some (JStr u)) xs) = 0"
    by (simp add: url_count_def)
  note e = DELETE_sites_effect [OF coll recs url w]
  from e show "snd (DELETE_sites st (Some b)) = json_response success_body 200" by blast
  from e show l: "list_sites (fst (DELETE_sites st (Some b))) = filter (\<lambda>s. url_of s \<noteq> Some (JStr u)) xs"
    by (simp add: list_sites_def json_response_def)
  from l z show "url_count u (list_sites (fst (DELETE_sites st (Some b)))) = 0" by simp
  assume "url_count u xs = 0"
  with e show "fst (DELETE_sites st (Some b)) = st" by blast
next
  assume "JNull \<in> set xs"
  from DELETE_sites_null_record [OF coll this url]
  show "DELETE_sites st (Some b)
        = (st, json_response (JObj [(''error'', JStr ''Failed to delete WordPress site'')]) 500)"
    by (simp add: error_body_def)
qed

text \<open>
  A delete that removes both records with the url, a delete of a url that is not stored,
  and a delete on a collection whose one element is null.
\<close>

theorem delete_by_url_witness:
  "list_sites (fst (DELETE_sites
       (store_of [record_of ''https://a.example'' ''tech'', record_of ''https://b.example'' ''news'',
                  record_of ''https://a.example'' ''food''])
       (Some (JObj [(''url'', JStr ''https://a.example'')]))))
     = [record_of ''https://b.example'' ''news''] \<and>
   DELETE_sites (store_of [record_of ''https://a.example'' ''tech''])
       (Some (JObj [(''url'', JStr ''https://missing.example'')]))
     = (store_of [record_of ''https://a.example'' ''tech''], json_response success_body 200) \<and>
   DELETE_sites (store_of [JNull]) (Some (JObj [(''url'', JStr ''https://missing.example'')]))
     = (store_of [JNull],
        json_response (JObj [(''error'', JStr ''Failed to delete WordPress site'')]) 500)"
proof -
  let ?xs = "[record_of ''https://a.example'' ''tech'', record_of ''https://b.example'' ''news'',
              record_of ''https://a.example'' ''food'']"
  let ?ys = "[record_of ''https://a.example'' ''tech'']"
  have coll: "GET_sites (store_of ?xs) = json_response (JArr ?xs) 200" by (simp add: eval_defs)
  have recs: "JNull \<notin> set ?xs" by (simp add: record_of_def)
  have w: "writable (store_of ?xs)" by (simp add: store_of_def)
  have ua: "getprop (JObj [(''url'', JStr ''https://a.example'')]) ''url'' = Inr (Some (JStr ''https://a.example''))"
    by simp
  have coll': "GET_sites (store_of ?ys) = json_response (JArr ?ys) 200" by (simp add: eval_defs)
  have recs': "JNull \<notin> set ?ys" by (simp add: record_of_def)
  have w': "writable (store_of ?ys)" by (simp add: store_of_def)
  have um: "getprop (JObj [(''url'', JStr ''https://missing.example'')]) ''url'' = Inr (Some (JStr ''https://missing.example''))"
    by simp
  have none: "url_count ''https://missing.example'' ?ys = 0"
    by (simp add: url_count_def url_of_def record_of_def)
  have flt: "filter (\<lambda>s. url_of s \<noteq> Some (JStr ''https://a.example'')) ?xs = [record_of ''https://b.example'' ''news'']"
    by (simp add: url_of_def record_of_def)
  have coll'': "GET_sites (store_of [JNull]) = json_response (JArr [JNull]) 200" by (simp add: eval_defs)
  have w'': "writable (store_of [JNull])" by (simp add: store_of_def)
  have bad: "JNull \<in> set [JNull]" by simp
  from delete_by_url [OF coll ua w] recs flt
  have one: "list_sites (fst (DELETE_sites (store_of ?xs) (Some (JObj [(''url'', JStr ''https://a.example'')])))) = [record_of ''https://b.example'' ''news'']"
    by simp
  from delete_by_url [OF coll' um w'] recs' none
  have two: "DELETE_sites (store_of ?ys) (Some (JObj [(''url'', JStr ''https://missing.example'')])) = (store_of ?ys, json_response success_body 200)"
    by (simp add: prod_eq_iff)
  from delete_by_url [OF coll'' um w''] bad
  have three: "DELETE_sites (store_of [JNull]) (Some (JObj [(''url'', JStr ''https://missing.example'')]))
     = (store_of [JNull], json_response (JObj [(''error'', JStr ''Failed to delete WordPress site'')]) 500)"
    by blast
  from one two three show ?thesis by simp
qed

text \<open>
  Claim C4 as stated fails on a collection that holds a null element next to a record:
  the delete of that record's url answers 500 and the record stays.
\<close>

theorem delete_null_record_counterexample:
  "DELETE_sites (store_of [record_of ''https://a.example'' ''tech'', JNull])
       (Some (JObj [(''url'', JStr ''https://a.example'')]))
     = (store_of [record_of ''https://a.example'' ''tech'', JNull],
        json_response (JObj [(''error'', JStr ''Failed to delete WordPress site'')]) 500)"
  by (simp add: eval_defs)

text \<open>
  Claim C5, as amended. GET answers 500 with an \<open>error\<close> body when the file cannot be
  read or parsed, and also when it holds the value null. On every other document GET
  answers 200: with the empty array when the document has no \<^verbatim>\<open>wordpress_sites\<close>, with
  the stored array when it holds one.
\<close>

theorem list_or_empty:
  "(content st = None \<or> content st = Some JNull \<longrightarrow>
      GET_sites st = json_response (JObj [(''error'', JStr ''Failed to load WordPress sites'')]) 500) \<and>
   (content st = Some d \<and> d \<noteq> JNull \<longrightarrow>
      status (GET_sites st) = 200 \<and>
      (getprop d ''wordpress_sites'' = Inr None \<longrightarrow> body (GET_sites st) = JArr []) \<and>
      (\<forall>xs. getprop d ''wordpress_sites'' = Inr (Some (JArr xs)) \<longrightarrow> body (GET_sites st) = JArr xs))"
  by (cases d) (auto simp: GET_sites_def readConfig_def error_body_def json_response_def or_empty_def)

text \<open>An unreadable file, a document without the key, a document with one record.\<close>

theorem list_or_empty_witness:
  "GET_sites \<lparr>content = None, writable = True\<rparr>
     = json_response (JObj [(''error'', JStr ''Failed to load WordPress sites'')]) 500 \<and>
   GET_sites \<lparr>content = Some (JObj [(''theme'', JStr ''dark'')]), writable = True\<rparr>
     = json_response (JArr []) 200 \<and>
   GET_sites (store_of [record_of ''https://a.example'' ''tech''])
     = json_response (JArr [record_of ''https://a.example'' ''tech'']) 200"
proof -
  let ?d = "JObj [(''theme'', JStr ''dark'')]"
  let ?e = "JObj [(''theme'', JStr ''dark''), (''wordpress_sites'', JArr [record_of ''https://a.example'' ''tech'']), (''language'', JStr ''en'')]"
  have a: "content \<lparr>content = None, writable = True\<rparr> = None" by simp
  have b: "content \<lparr>content = Some ?d, writable = True\<rparr> = Some ?d \<and> ?d \<noteq> JNull" by simp
  have b': "getprop ?d ''wordpress_sites'' = Inr None" by simp
  have c: "content (store_of [record_of ''https://a.example'' ''tech'']) = Some ?e \<and> ?e \<noteq> JNull"
    by (simp add: store_of_def)
  have c': "getprop ?e ''wordpress_sites'' = Inr (Some (JArr [record_of ''https://a.example'' ''tech'']))" by simp
  from list_or_empty [of "\<lparr>content = None, writable = True\<rparr>"] a
  have 1: "GET_sites \<lparr>content = None, writable = True\<rparr>
     = json_response (JObj [(''error'', JStr ''Failed to load WordPress sites'')]) 500" by blast
  from list_or_empty [of "\<lparr>content = Some ?d, writable = True\<rparr>" ?d] b b'
  have 2: "GET_sites \<lparr>content = Some ?d, writable = True\<rparr> = json_response (JArr []) 200"
    by (simp add: json_response_def)
  from list_or_empty [of "store_of [record_of ''https://a.example'' ''tech'']" ?e] c c'
  have 3: "GET_sites (store_of [record_of ''https://a.example'' ''tech''])
     = json_response (JArr [record_of ''https://a.example'' ''tech'']) 200"
    by (simp add: json_response_def)
  from 1 2 3 show ?thesis by blast
qed

text \<open>
  Claim C5 as stated fails on a file that holds null: the file is read and parsed, and
  GET answers 500.
\<close>

theorem list_null_document_counterexample:
  "GET_sites \<lparr>content = Some JNull, writable = True\<rparr>
     = json_response (JObj [(''error'', JStr ''Failed to load WordPress sites'')]) 500"
  by (simp add: GET_sites_def readConfig_def error_body_def)

section \<open>The probe\<close>

lemma rejected_not_connected:
  "axios_get 5000 env = Inl c \<Longrightarrow> POST_test_connection request env = not_connected"
  by (simp add: POST_test_connection_def POST_test_connection_try_def split: sum.splits)

lemma axios_get_first:
  "axios_get 5000 \<lparr>axios_maxRedirects = m, answers = Unreachable # rest\<rparr> = Inl ERR_NETWORK"
  "axios_get 5000 \<lparr>axios_maxRedirects = m, answers = Timeout_elapsed # rest\<rparr> = Inl ECONNABORTED"
  "\<not> is_redirect m s h \<Longrightarrow> s < 200 \<or> 300 \<le> s \<Longrightarrow>
   axios_get 5000 \<lparr>axios_maxRedirects = m, answers = Answer s h d # rest\<rparr> = Inl (ERR_BAD_STATUS s)"
  "200 \<le> s \<Longrightarrow> s < 300 \<Longrightarrow>
   axios_get 5000 \<lparr>axios_maxRedirects = m, answers = Answer s h d # rest\<rparr>
     = Inr \<lparr>headers = h, data = d\<rparr>"
  by (auto simp: axios_get_def is_redirect_def)

lemma probe_response_cases:
  "POST_test_connection request env = not_connected \<or>
   (\<exists>r first. POST_test_connection request env = json_response (connected_body r first) 200)"
  by (auto simp: POST_test_connection_def POST_test_connection_try_def split: sum.splits)

lemma connected_body_keys:
  "getprop (connected_body r first) ''connected'' = Inr (Some (JBool True))"
  "getprop (connected_body r first) ''failureReason'' = Inr None"
  "getprop (connected_body r first) ''postCount'' = Inr None"
  "getprop (connected_body r first) ''lastPostDate'' = Inr None"
  "getprop (connected_body r first) ''version'' = Inr (map_option JStr (map_of (headers r) ''x-wp-total''))"
  "getprop (connected_body r first) ''last_post'' = Inr (Some (or_null (optional_date first)))"
  by (simp_all add: connected_body_def split: option.splits)

lemma not_connected_keys:
  "status not_connected = 500"
  "getprop (body not_connected) ''connected'' = Inr (Some (JBool False))"
  "getprop (body not_connected) ''failureReason'' = Inr None"
  by (simp_all add: not_connected_def json_response_def)

text \<open>
  Claim C2, as amended. The route always answers: with 200 or with 500, and
  \<open>connected\<close> is true exactly on 200. A request without connection, a fired timeout,
  an answer that is not a followed redirect and whose status is outside 200..299 (a
  refused authentication among them), and every other rejection of the axios call (after
  redirects, or for too many of them) all give the same response, 500 with
  \<open>connected: false\<close> and the one message; no response has a \<open>failureReason\<close>.
\<close>

theorem probe_failures_flattened:
  "POST_test_connection request \<lparr>axios_maxRedirects = m, answers = Unreachable # rest\<rparr>
     = json_response (JObj [(''connected'', JBool False),
                            (''error'', JStr ''Failed to connect to WordPress site'')]) 500 \<and>
   POST_test_connection request \<lparr>axios_maxRedirects = m, answers = Timeout_elapsed # rest\<rparr>
     = json_response (JObj [(''connected'', JBool False),
                            (''error'', JStr ''Failed to connect to WordPress site'')]) 500 \<and>
   (\<not> is_redirect m s h \<and> (s < 200 \<or> 300 \<le> s) \<longrightarrow>
      POST_test_connection request \<lparr>axios_maxRedirects = m, answers = Answer s h d # rest\<rparr>
        = json_response (JObj [(''connected'', JBool False),
                               (''error'', JStr ''Failed to connect to WordPress site'')]) 500) \<and>
   (axios_get 5000 env = Inl c \<longrightarrow>
      POST_test_connection request env
        = json_response (JObj [(''connected'', JBool False),
                               (''error'', JStr ''Failed to connect to WordPress site'')]) 500) \<and>
   (status (POST_test_connection request env) = 200 \<or>
    status (POST_test_connection request env) = 500) \<and>
   getprop (body (POST_test_connection request env)) ''connected''
     = Inr (Some (JBool (status (POST_test_connection request env) = 200))) \<and>
   getprop (body (POST_test_connection request env)) ''failureReason'' = Inr None"
proof -
  have 1: "POST_test_connection request \<lparr>axios_maxRedirects = m, answers = Unreachable # rest\<rparr>
      = not_connected"
    by (rule rejected_not_connected) (rule axios_get_first)
  have 2: "POST_test_connection request \<lparr>axios_maxRedirects = m, answers = Timeout_elapsed # rest\<rparr>
      = not_connected"
    by (rule rejected_not_connected) (rule axios_get_first)
  have 3: "\<not> is_redirect m s h \<and> (s < 200 \<or> 300 \<le> s) \<longrightarrow>
      POST_test_connection request \<lparr>axios_maxRedirects = m, answers = Answer s h d # rest\<rparr>
        = not_connected"
    by (auto intro: rejected_not_connected axios_get_first(3))
  have 4: "axios_get 5000 env = Inl c \<longrightarrow> POST_test_connection request env = not_connected"
    by (auto intro: rejected_not_connected)
  have 5: "(status (POST_test_connection request env) = 200 \<or>
      status (POST_test_connection request env) = 500) \<and>
     getprop (body (POST_test_connection request env)) ''connected''
       = Inr (Some (JBool (status (POST_test_connection request env) = 200))) \<and>
     getprop (body (POST_test_connection request env)) ''failureReason'' = Inr None"
    using probe_response_cases [of request env]
    by (auto simp: not_connected_keys connected_body_keys json_response_def)
  from 1 2 3 4 5 show ?thesis by (simp add: not_connected_def)
qed

text \<open>A refused authentication, and a redirect that leads to a status 503.\<close>

theorem probe_failures_flattened_witness:
  "POST_test_connection (Some (record_of ''https://a.example'' ''tech''))
       (env_of [Answer 401 [] (JObj [(''code'', JStr ''rest_forbidden'')])])
     = json_response (JObj [(''connected'', JBool False),
                            (''error'', JStr ''Failed to connect to WordPress site'')]) 500 \<and>
   POST_test_connection (Some (record_of ''https://a.example'' ''tech''))
       (env_of [Answer 302 [(''location'', ''https://b.example/wp-json/wp/v2/posts'')] (JStr []),
                Answer 503 [] (JStr ''unavailable'')])
     = json_response (JObj [(''connected'', JBool False),
                            (''error'', JStr ''Failed to connect to WordPress site'')]) 500"
proof -
  let ?site = "Some (record_of ''https://a.example'' ''tech'')"
  have a: "\<not> is_redirect 5 401 [] \<and> ((401::nat) < 200 \<or> (300::nat) \<le> 401)"
    by (simp add: is_redirect_def)
  have b: "axios_get 5000
      (env_of [Answer 302 [(''location'', ''https://b.example/wp-json/wp/v2/posts'')] (JStr []),
               Answer 503 [] (JStr ''unavailable'')]) = Inl (ERR_BAD_STATUS 503)"
    by (simp add: axios_get_def env_of_def is_redirect_def)
  from probe_failures_flattened [of ?site 5 "[]" 401 "[]" "JObj [(''code'', JStr ''rest_forbidden'')]"] a
  have 1: "POST_test_connection ?site (env_of [Answer 401 [] (JObj [(''code'', JStr ''rest_forbidden'')])])
     = json_response (JObj [(''connected'', JBool False),
                            (''error'', JStr ''Failed to connect to WordPress site'')]) 500"
    unfolding env_of_def by blast
  from probe_failures_flattened [of ?site _ _ _ _ _
      "env_of [Answer 302 [(''location'', ''https://b.example/wp-json/wp/v2/posts'')] (JStr []),
               Answer 503 [] (JStr ''unavailable'')]" "ERR_BAD_STATUS 503"] b
  have 2: "POST_test_connection ?site
       (env_of [Answer 302 [(''location'', ''https://b.example/wp-json/wp/v2/posts'')] (JStr []),
                Answer 503 [] (JStr ''unavailable'')])
     = json_response (JObj [(''connected'', JBool False),
                            (''error'', JStr ''Failed to connect to WordPress site'')]) 500"
    by blast
  from 1 2 show ?thesis by blast
qed

text \<open>
  Claim C2 as stated fails for an unreachable host: the body has the keys \<open>connected\<close>
  and \<open>error\<close> and no \<open>failureReason\<close>.
\<close>

theorem probe_reason_counterexample:
  "body (POST_test_connection (Some (record_of ''https://a.example'' ''tech'')) (env_of [Unreachable]))
     = JObj [(''connected'', JBool False), (''error'', JStr ''Failed to connect to WordPress site'')]"
  by (simp add: POST_test_connection_def POST_test_connection_try_def request_json_def
      record_of_def axios_get_def env_of_def not_connected_def json_response_def)

text \<open>
  Claim C6, as amended. When the axios call is resolved (directly or after redirects) with
  a response whose body is a listing, the route answers 200 with \<open>connected: true\<close>, with
  \<open>version\<close> the header \<^verbatim>\<open>x-wp-total\<close> when present (and no \<open>version\<close> otherwise),
  and with \<open>last_post\<close> the date of the first item of the listing, or null when the
  listing is empty. The body has no \<open>postCount\<close> and no \<open>lastPostDate\<close>.
\<close>

theorem probe_success_body:
  assumes "axios_get 5000 env = Inr r" "data r = JArr posts" "site \<noteq> JNull"
  shows "status (POST_test_connection (Some site) env) = 200 \<and>
    getprop (body (POST_test_connection (Some site) env)) ''connected''
      = Inr (Some (JBool True)) \<and>
    getprop (body (POST_test_connection (Some site) env)) ''version''
      = Inr (map_option JStr (map_of (headers r) ''x-wp-total'')) \<and>
    (posts = [] \<longrightarrow>
       getprop (body (POST_test_connection (Some site) env)) ''last_post''
         = Inr (Some JNull)) \<and>
    (\<forall>kvs ps dt. posts = JObj kvs # ps \<and> map_of kvs ''date'' = Some (JStr dt) \<and> dt \<noteq> [] \<longrightarrow>
       getprop (body (POST_test_connection (Some site) env)) ''last_post''
         = Inr (Some (JStr dt))) \<and>
    getprop (body (POST_test_connection (Some site) env)) ''postCount''
      = Inr None \<and>
    getprop (body (POST_test_connection (Some site) env)) ''lastPostDate''
      = Inr None"
proof -
  have u: "\<exists>v. getprop site ''url'' = Inr v" using assms(3) by (cases site) auto
  have "POST_test_connection (Some site) env
      = json_response (connected_body r (case posts of [] \<Rightarrow> None | x # _ \<Rightarrow> Some x)) 200"
    using u assms(1,2)
    by (auto simp: POST_test_connection_def POST_test_connection_try_def request_json_def)
  then show ?thesis
    by (auto simp: connected_body_keys json_response_def or_null_def)
qed

text \<open>
  A direct answer with a listing of two posts and the count header, and an empty listing
  reached through a redirect.
\<close>

theorem probe_success_body_witness:
  "status (POST_test_connection (Some (record_of ''https://a.example'' ''tech''))
       (env_of [Answer 200 [(''x-wp-total'', ''2'')]
          (JArr [JObj [(''date'', JStr ''2024-05-02T10:00:00''), (''slug'', JStr ''second'')],
                 JObj [(''date'', JStr ''2024-04-01T09:00:00''), (''slug'', JStr ''first'')]])]))
     = 200 \<and>
   getprop (body (POST_test_connection (Some (record_of ''https://a.example'' ''tech''))
       (env_of [Answer 200 [(''x-wp-total'', ''2'')]
          (JArr [JObj [(''date'', JStr ''2024-05-02T10:00:00''), (''slug'', JStr ''second'')],
                 JObj [(''date'', JStr ''2024-04-01T09:00:00''), (''slug'', JStr ''first'')]])])))
     ''last_post'' = Inr (Some (JStr ''2024-05-02T10:00:00'')) \<and>
   getprop (body (POST_test_connection (Some (record_of ''https://a.example'' ''tech''))
       (env_of [Answer 302 [(''location'', ''https://b.example/wp-json/wp/v2/posts'')] (JStr []),
                Answer 200 [] (JArr [])]))) ''last_post'' = Inr (Some JNull)"
proof -
  let ?site = "record_of ''https://a.example'' ''tech''"
  let ?posts = "[JObj [(''date'', JStr ''2024-05-02T10:00:00''), (''slug'', JStr ''second'')],
                 JObj [(''date'', JStr ''2024-04-01T09:00:00''), (''slug'', JStr ''first'')]]"
  let ?e1 = "env_of [Answer 200 [(''x-wp-total'', ''2'')] (JArr ?posts)]"
  let ?e2 = "env_of [Answer 302 [(''location'', ''https://b.example/wp-json/wp/v2/posts'')] (JStr []),
                Answer 200 [] (JArr [])]"
  have n: "?site \<noteq> JNull" by (simp add: record_of_def)
  have a1: "axios_get 5000 ?e1 = Inr \<lparr>headers = [(''x-wp-total'', ''2'')], data = JArr ?posts\<rparr>"
    by (simp add: axios_get_def env_of_def is_redirect_def)
  have d1: "data \<lparr>headers = [(''x-wp-total'', ''2'')], data = JArr ?posts\<rparr> = JArr ?posts" by simp
  have a2: "axios_get 5000 ?e2 = Inr \<lparr>headers = [], data = JArr []\<rparr>"
    by (simp add: axios_get_def env_of_def is_redirect_def)
  have d2: "data \<lparr>headers = [], data = JArr []\<rparr> = JArr []" by simp
  have d: "map_of [(''date'', JStr ''2024-05-02T10:00:00''), (''slug'', JStr ''second'')] ''date''
      = Some (JStr ''2024-05-02T10:00:00'')" by simp
  note p = probe_success_body [OF a1 d1 n]
  from p have 0: "status (POST_test_connection (Some ?site) ?e1) = 200" by blast
  from p d have 1: "getprop (body (POST_test_connection (Some ?site) ?e1)) ''last_post''
      = Inr (Some (JStr ''2024-05-02T10:00:00''))" by simp
  from probe_success_body [OF a2 d2 n]
  have 2: "getprop (body (POST_test_connection (Some ?site) ?e2)) ''last_post'' = Inr (Some JNull)"
    by simp
  from 0 1 2 show ?thesis by blast
qed

text \<open>
  Claim C6 as stated fails on a listing of two posts: the keys of the body are
  \<open>connected\<close>, \<open>version\<close> and \<open>last_post\<close>.
\<close>

theorem probe_shape_counterexample:
  "body (POST_test_connection (Some (record_of ''https://a.example'' ''tech''))
       (env_of [Answer 200 [(''x-wp-total'', ''2'')]
          (JArr [JObj [(''date'', JStr ''2024-05-02T10:00:00''), (''slug'', JStr ''second'')],
                 JObj [(''date'', JStr ''2024-04-01T09:00:00''), (''slug'', JStr ''first'')]])]))
     = JObj [(''connected'', JBool True), (''version'', JStr ''2''),
             (''last_post'', JStr ''2024-05-02T10:00:00'')]"
  by (simp add: POST_test_connection_def POST_test_connection_try_def request_json_def
      record_of_def axios_get_def env_of_def is_redirect_def connected_body_def or_null_def
      json_response_def)

section \<open>The client flows\<close>

lemma testConnection_frame:
  "fst (testConnection w site) = w \<and>
   snd (snd (testConnection w site)) = [Fetch ''/api/wordpress/test-connection'' ''POST'']"
  by (simp add: testConnection_def fetch_json_def split: sum.splits)

lemma addSite_valid:
  assumes "url (newSite m) \<noteq> []" "username (newSite m) \<noteq> []" "password (newSite m) \<noteq> []"
  shows "addSite w m =
      (w,
       m\<lparr>sites := sites m @ [(newSite m)\<lparr>is_connected := fst (snd (testConnection w (newSite m)))\<rparr>],
         newSite := blank_site, loading := False\<rparr>,
       [Fetch ''/api/wordpress/test-connection'' ''POST'',
        Toast_success ''WordPress site added successfully''])"
  using assms testConnection_frame [of w "newSite m"]
  by (auto simp: addSite_def split: prod.splits)

lemma addSite_invalid:
  assumes "url (newSite m) = [] \<or> username (newSite m) = [] \<or> password (newSite m) = []"
  shows "addSite w m = (w, m, [Toast_error ''Please fill in all required fields''])"
  using assms by (simp add: addSite_def)

text \<open>
  Claim C8. When the url, the username or the password of the candidate is empty,
  \<open>addSite\<close> shows the validation error and nothing else: no request is sent, and the
  world and the state of the component are what they were.
\<close>

theorem required_fields_checked_first:
  assumes "url (newSite m) = [] \<or> username (newSite m) = [] \<or> password (newSite m) = []"
  shows "addSite w m = (w, m, [Toast_error ''Please fill in all required fields''])"
  using assms by (simp add: addSite_def)

text \<open>A candidate without a username.\<close>

theorem required_fields_checked_first_witness:
  "addSite (world_of [] [Unreachable])
       \<lparr>sites = [], loading = False, newSite = candidate ''https://a.example'' [] ''x''\<rparr>
     = (world_of [] [Unreachable],
        \<lparr>sites = [], loading = False, newSite = candidate ''https://a.example'' [] ''x''\<rparr>,
        [Toast_error ''Please fill in all required fields''])"
  by (rule required_fields_checked_first) (simp add: candidate_def blank_site_def)

text \<open>
  Claim C9. \<open>addSite\<close> leaves the configuration file of the server as it was, so a later
  GET answers as before, and sends no request to the sites route; \<open>removeSite\<close> leaves
  the whole world as it was, sends no request at all, and filters the component's own list.
\<close>

theorem client_never_persists:
  "config_file (fst (addSite w m)) = config_file w \<and>
   GET_sites (config_file (fst (addSite w m))) = GET_sites (config_file w) \<and>
   (\<forall>method. Fetch ''/api/wordpress/sites'' method \<notin> set (snd (snd (addSite w m)))) \<and>
   fst (removeSite w m u) = w \<and>
   (\<forall>path method. Fetch path method \<notin> set (snd (snd (removeSite w m u)))) \<and>
   sites (fst (snd (removeSite w m u))) = filter (\<lambda>site. url site \<noteq> u) (sites m)"
proof (cases "url (newSite m) = [] \<or> username (newSite m) = [] \<or> password (newSite m) = []")
  case True
  from addSite_invalid [OF this, of w] show ?thesis by (simp add: removeSite_def)
next
  case False
  then have "url (newSite m) \<noteq> []" "username (newSite m) \<noteq> []" "password (newSite m) \<noteq> []"
    by simp_all
  from addSite_valid [OF this, of w] show ?thesis by (simp add: removeSite_def)
qed

text \<open>
  Claim C10. With the three required fields filled in, \<open>addSite\<close> puts the candidate,
  merged with the result of the probe, at the end of the list, whatever the list holds: the
  number of records with the candidate's url goes up by one, so a list that had such a
  record has at least two afterwards.
\<close>

theorem addSite_appends:
  assumes "url (newSite m) \<noteq> []" "username (newSite m) \<noteq> []" "password (newSite m) \<noteq> []"
  shows "sites (fst (snd (addSite w m)))
      = sites m @ [(newSite m)\<lparr>is_connected := fst (snd (testConnection w (newSite m)))\<rparr>] \<and>
    local_count (url (newSite m)) (sites (fst (snd (addSite w m))))
      = Suc (local_count (url (newSite m)) (sites m)) \<and>
    (0 < local_count (url (newSite m)) (sites m) \<longrightarrow>
       2 \<le> local_count (url (newSite m)) (sites (fst (snd (addSite w m)))))"
  using addSite_valid [OF assms, of w] by (auto simp: local_count_def Suc_le_eq)

text \<open>A list that already holds the url of the candidate.\<close>

theorem addSite_appends_witness:
  "local_count ''https://a.example''
     (sites (fst (snd (addSite (world_of [] [Answer 200 [] (JArr [])])
        \<lparr>sites = [candidate ''https://a.example'' ''admin'' ''x''], loading = False,
         newSite = candidate ''https://a.example'' ''editor'' ''y''\<rparr>)))) = 2"
proof -
  let ?m = "\<lparr>sites = [candidate ''https://a.example'' ''admin'' ''x''], loading = False,
         newSite = candidate ''https://a.example'' ''editor'' ''y''\<rparr>"
  let ?w = "world_of [] [Answer 200 [] (JArr [])]"
  have a: "url (newSite ?m) \<noteq> []" "username (newSite ?m) \<noteq> []" "password (newSite ?m) \<noteq> []"
    by (simp_all add: candidate_def)
  have u: "url (newSite ?m) = ''https://a.example''" by (simp add: candidate_def)
  have c: "local_count ''https://a.example'' (sites ?m) = 1"
    by (simp add: local_count_def candidate_def)
  from addSite_appends [OF a, of ?w]
  have "local_count (url (newSite ?m)) (sites (fst (snd (addSite ?w ?m))))
      = Suc (local_count (url (newSite ?m)) (sites ?m))" by blast
  then have "local_count ''https://a.example'' (sites (fst (snd (addSite ?w ?m)))) = Suc 1"
    unfolding u c .
  then show ?thesis by simp
qed

end
